theory Spec2Isabelle
  imports Main
begin

section \<open>JavaScript values\<close>

text \<open>
  The values that flow through the library are JavaScript values: what \<open>response.json()\<close>
  yields, what callbacks return, what is handed to \<open>JSON.stringify\<close>. Numbers are the
  integers a double represents exactly (magnitude below \<open>2^53\<close>); strings are byte
  strings (the UTF-8 form of the JavaScript string). An object is the list of its own
  enumerable properties in enumeration order.
\<close>

datatype jsval =
    JUndefined
  | JNull
  | JBool bool
  | JNum int
  | JStr string
  | JArr "jsval list"
  | JObj "(string \<times> jsval) list"

text \<open>Truthiness, as tested by \<open>if ( v )\<close>, \<open>!v\<close> and \<open>c ? a : b\<close>.\<close>

fun truthy :: "jsval \<Rightarrow> bool" where
  "truthy JUndefined = False"
| "truthy JNull = False"
| "truthy (JBool b) = b"
| "truthy (JNum n) = (n \<noteq> 0)"
| "truthy (JStr s) = (s \<noteq> [])"
| "truthy (JArr xs) = True"
| "truthy (JObj kvs) = True"


subsection \<open>Decimal and hexadecimal digits\<close>

definition digit_char :: "nat \<Rightarrow> char" where
  "digit_char d = ''0123456789abcdef'' ! (d mod 16)"

definition upper_digit_char :: "nat \<Rightarrow> char" where
  "upper_digit_char d = ''0123456789ABCDEF'' ! (d mod 16)"

fun show_nat :: "nat \<Rightarrow> string" where
  "show_nat n = (if n < 10 then [digit_char n] else show_nat (n div 10) @ [digit_char (n mod 10)])"

declare show_nat.simps [simp del]

definition show_int :: "int \<Rightarrow> string" where
  "show_int i = (if i < 0 then CHR ''-'' # show_nat (nat (- i)) else show_nat (nat i))"

subsection \<open>String conversion and JSON.stringify\<close>

fun join :: "string \<Rightarrow> string list \<Rightarrow> string" where
  "join sep [] = []"
| "join sep [x] = x"
| "join sep (x # y # ys) = x @ sep @ join sep (y # ys)"

text \<open>
  \<open>String(v)\<close>, the conversion a template literal \<open>`${ v }`\<close> applies. An array prints its
  elements joined by commas, with \<open>null\<close> and \<open>undefined\<close> elements printed as nothing.
\<close>

fun js_to_string :: "jsval \<Rightarrow> string" where
  "js_to_string JUndefined = ''undefined''"
| "js_to_string JNull = ''null''"
| "js_to_string (JBool b) = (if b then ''true'' else ''false'')"
| "js_to_string (JNum n) = show_int n"
| "js_to_string (JStr s) = s"
| "js_to_string (JArr xs) =
     join '','' (map (\<lambda>x. if x = JUndefined \<or> x = JNull then [] else js_to_string x) xs)"
| "js_to_string (JObj kvs) = ''[object Object]''"

text \<open>
  \<open>QuoteJSONString\<close>: the double quote and the backslash are escaped, control characters
  get their short escape or \<open>\u00XX\<close>, every other byte is kept.
\<close>

definition json_escape_char :: "char \<Rightarrow> string" where
  "json_escape_char c =
     (if c = CHR 0x22 then [CHR 0x5C, CHR 0x22]
      else if c = CHR 0x5C then [CHR 0x5C, CHR 0x5C]
      else if c = CHR 0x08 then [CHR 0x5C, CHR ''b'']
      else if c = CHR 0x09 then [CHR 0x5C, CHR ''t'']
      else if c = CHR 0x0A then [CHR 0x5C, CHR ''n'']
      else if c = CHR 0x0C then [CHR 0x5C, CHR ''f'']
      else if c = CHR 0x0D then [CHR 0x5C, CHR ''r'']
      else if (of_char c :: nat) < 32
        then [CHR 0x5C, CHR ''u'', CHR ''0'', CHR ''0'',
              digit_char (of_char c div 16), digit_char (of_char c mod 16)]
      else [c])"

definition json_quote :: "string \<Rightarrow> string" where
  "json_quote s = [CHR 0x22] @ concat (map json_escape_char s) @ [CHR 0x22]"

text \<open>
  \<open>JSON.stringify\<close> without indentation. Inside an array \<open>undefined\<close> is written
  \<open>null\<close>; a property whose value is \<open>undefined\<close> is left out.
\<close>

fun json_text :: "jsval \<Rightarrow> string" where
  "json_text JUndefined = ''null''"
| "json_text JNull = ''null''"
| "json_text (JBool b) = (if b then ''true'' else ''false'')"
| "json_text (JNum n) = show_int n"
| "json_text (JStr s) = json_quote s"
| "json_text (JArr xs) = ''['' @ join '','' (map json_text xs) @ '']''"
| "json_text (JObj kvs) =
     ''{'' @ join '',''
        (map (\<lambda>(k, v). json_quote k @ '':'' @ json_text v)
             (filter (\<lambda>(k, v). v \<noteq> JUndefined) kvs)) @ ''}''"

text \<open>At top level \<open>JSON.stringify(undefined)\<close> is \<open>undefined\<close>, not a string.\<close>

definition JSON_stringify :: "jsval \<Rightarrow> string option" where
  "JSON_stringify v = (if v = JUndefined then None else Some (json_text v))"

subsection \<open>Objects\<close>

text \<open>
  The own enumerable string-keyed properties of a value, in the order \<open>Object.keys\<close>,
  \<open>Object.entries\<close> and the spread \<open>{ ...v }\<close> visit them: the entries of an object, the
  indices of an array or of a string, nothing for the other values.
\<close>

fun own_entries :: "jsval \<Rightarrow> (string \<times> jsval) list" where
  "own_entries (JObj kvs) = kvs"
| "own_entries (JArr xs) = zip (map show_nat [0..<length xs]) xs"
| "own_entries (JStr s) = zip (map show_nat [0..<length s]) (map (\<lambda>c. JStr [c]) s)"
| "own_entries v = []"

definition Object_keys :: "jsval \<Rightarrow> string list" where
  "Object_keys v = map fst (own_entries v)"

text \<open>
  The property read \<open>v[k]\<close> for an own property \<open>k\<close>, and \<open>undefined\<close> where \<open>v\<close> has no
  such own property. The library reads only keys taken from \<open>Object.keys\<close>, the key
  \<open>undefined\<close>, \<open>_id\<close> and \<open>name\<close>, none of which a prototype provides.
\<close>

definition js_member :: "jsval \<Rightarrow> string \<Rightarrow> jsval" where
  "js_member v k = (case map_of (own_entries v) k of Some x \<Rightarrow> x | None \<Rightarrow> JUndefined)"

text \<open>\<open>xs[0]\<close> on an array of strings: \<open>undefined\<close> when the array is empty.\<close>

definition first_key :: "string list \<Rightarrow> jsval" where
  "first_key ks = (case ks of [] \<Rightarrow> JUndefined | k # _ \<Rightarrow> JStr k)"

text \<open>
  Defining property \<open>k\<close> in an object literal after a spread: an existing property keeps
  its place and takes the new value, a new one is added at the end.
\<close>

fun obj_set :: "(string \<times> jsval) list \<Rightarrow> string \<Rightarrow> jsval \<Rightarrow> (string \<times> jsval) list" where
  "obj_set [] k v = [(k, v)]"
| "obj_set ((k', v') # kvs) k v =
     (if k' = k then (k, v) # kvs else (k', v') # obj_set kvs k v)"

text \<open>The rest pattern \<open>const { _id, ...data } = v\<close>: every own property but \<open>_id\<close>.\<close>

definition obj_rest :: "string \<Rightarrow> jsval \<Rightarrow> jsval" where
  "obj_rest k v = JObj (filter (\<lambda>(k', _). k' \<noteq> k) (own_entries v))"

section \<open>Errors and sequencing\<close>

datatype error =
    ValidationError string
  | AuthenticationError
  | TransportError
  | CallbackError
  | TypeError

text \<open>
  Every asynchronous function of the library is a function from the world before the call
  to its outcome and the world after it. \<open>andThen\<close> is \<open>await\<close> followed by the rest of
  the function body: a rejection ends the body and is the outcome.
\<close>

definition andThen ::
  "('e + 'a) \<times> 'w \<Rightarrow> ('a \<Rightarrow> 'w \<Rightarrow> ('e + 'b) \<times> 'w) \<Rightarrow> ('e + 'b) \<times> 'w" where
  "andThen m f = (case m of (Inl e, w) \<Rightarrow> (Inl e, w) | (Inr x, w) \<Rightarrow> f x w)"

section \<open>The REST transport: class FirebaseSDK\<close>

datatype http_method = GET | PUT | POST | PATCH | DELETE

record request =
  req_url :: string
  req_method :: http_method
  req_cache :: "string option"
  req_body :: "string option"
  req_headers :: "(string \<times> string) list"

text \<open>
  What the library does not contain is a parameter: the clock, the auth provider and the
  store behind \<open>fetch\<close>. The \<open>n\<close>-th reading of \<open>Date.now()\<close> and the outcome of the
  \<open>n\<close>-th call of the provider's \<open>getAccessToken\<close> are arbitrary; the store answers a
  request from its state \<open>'s\<close>, and only a request other than a GET may change that state.
  An \<open>Inl\<close> answer is a rejected \<open>fetch\<close> or a body that \<open>response.json()\<close> cannot parse.
\<close>

record 's environment =
  Date_now :: "nat \<Rightarrow> int"
  auth_getAccessToken :: "nat \<Rightarrow> error + jsval"
  store_read :: "'s \<Rightarrow> request \<Rightarrow> error + jsval"
  store_write :: "'s \<Rightarrow> request \<Rightarrow> (error + jsval) \<times> 's"

text \<open>
  The fields of a \<open>FirebaseSDK\<close> instance (\<open>target\<close>, \<open>storage\<close>; \<open>cache_mode\<close> is the
  \<open>cache\<close> option its requests carry, \<open>'no-store'\<close> in one revision of the class and none
  in the other), and the world around it: how often the clock and the provider have been
  asked, the requests sent so far, the state of the store.
\<close>

record 's world =
  target :: string
  cache_mode :: "string option"
  storage_token :: jsval
  storage_expire :: int
  clock_reads :: nat
  auth_calls :: nat
  sent :: "request list"
  remote :: 's

definition ends_with_slash :: "string \<Rightarrow> bool" where
  "ends_with_slash s = (s \<noteq> [] \<and> last s = CHR ''/'')"

text \<open>The constructor: one trailing slash of the database URL is dropped; the cache is empty.\<close>

definition FirebaseSDK_new :: "string \<Rightarrow> string option \<Rightarrow> 's \<Rightarrow> 's world" where
  "FirebaseSDK_new database cm s =
     \<lparr> target = (if ends_with_slash database then butlast database else database),
       cache_mode = cm,
       storage_token = JStr [], storage_expire = 0,
       clock_reads = 0, auth_calls = 0, sent = [], remote = s \<rparr>"

definition getAccessToken :: "'s environment \<Rightarrow> 's world \<Rightarrow> (error + jsval) \<times> 's world" where
  "getAccessToken env w =
     (let now = Date_now env (clock_reads w);
          w1 = w\<lparr>clock_reads := Suc (clock_reads w)\<rparr>;
          token = storage_token w1;
          expire = storage_expire w1
      in if \<not> truthy token \<or> now > expire
         then andThen (auth_getAccessToken env (auth_calls w1),
                       w1\<lparr>auth_calls := Suc (auth_calls w1)\<rparr>)
                (\<lambda>fresh w2. (Inr fresh, w2\<lparr>storage_token := fresh, storage_expire := now + 3300000\<rparr>))
         else (Inr (storage_token w1), w1))"

definition fetch :: "'s environment \<Rightarrow> request \<Rightarrow> 's world \<Rightarrow> (error + jsval) \<times> 's world" where
  "fetch env r w =
     (if req_method r = GET
      then (store_read env (remote w) r, w\<lparr>sent := sent w @ [r]\<rparr>)
      else (case store_write env (remote w) r of
              (answer, s') \<Rightarrow> (answer, w\<lparr>sent := sent w @ [r], remote := s'\<rparr>)))"

definition bearer :: "jsval \<Rightarrow> string \<times> string" where
  "bearer token = (''Authorization'', ''Bearer '' @ js_to_string token)"

definition FirebaseSDK_get ::
  "'s environment \<Rightarrow> string \<Rightarrow> 's world \<Rightarrow> (error + jsval) \<times> 's world" where
  "FirebaseSDK_get env path w =
     andThen (getAccessToken env w) (\<lambda>token w1.
       fetch env \<lparr> req_url = target w1 @ ''/'' @ path @ ''.json'',
                   req_method = GET, req_cache = cache_mode w1, req_body = None,
                   req_headers = [bearer token] \<rparr> w1)"

subsection \<open>Query parameters\<close>

text \<open>
  \<open>URLSearchParams.set\<close>: the first pair of that name takes the value and the others of
  that name go; without such a pair, the new pair is appended.
\<close>

fun params_set :: "(string \<times> string) list \<Rightarrow> string \<Rightarrow> string \<Rightarrow> (string \<times> string) list" where
  "params_set [] k v = [(k, v)]"
| "params_set ((k', v') # ps) k v =
     (if k' = k then (k, v) # filter (\<lambda>(n, _). n \<noteq> k) ps else (k', v') # params_set ps k v)"

text \<open>
  The value set for a parameter. Where \<open>JSON.stringify\<close> yields \<open>undefined\<close>,
  \<open>URLSearchParams.set\<close> converts it to the string \<open>undefined\<close>.
\<close>

definition query_value :: "jsval \<Rightarrow> string" where
  "query_value v =
     (case v of
        JStr s \<Rightarrow> [CHR 0x22] @ s @ [CHR 0x22]
      | _ \<Rightarrow> (case JSON_stringify v of Some s \<Rightarrow> s | None \<Rightarrow> ''undefined''))"

definition orderBy_params :: "(string \<times> jsval) list \<Rightarrow> (string \<times> string) list" where
  "orderBy_params query =
     fold (\<lambda>(key, v) params. params_set params key (query_value v)) query []"

text \<open>
  \<open>URLSearchParams.toString\<close>, the application/x-www-form-urlencoded serialiser: letters,
  digits and \<open>* - . _\<close> stay, a space becomes \<open>+\<close>, every other byte is \<open>%XX\<close>.
\<close>

definition urlencode_byte :: "char \<Rightarrow> string" where
  "urlencode_byte c =
     (let n = (of_char c :: nat) in
      if (48 \<le> n \<and> n \<le> 57) \<or> (65 \<le> n \<and> n \<le> 90) \<or> (97 \<le> n \<and> n \<le> 122)
         \<or> n = 42 \<or> n = 45 \<or> n = 46 \<or> n = 95 then [c]
      else if n = 32 then ''+''
      else [CHR ''%'', upper_digit_char (n div 16), upper_digit_char (n mod 16)])"

definition urlencode :: "string \<Rightarrow> string" where
  "urlencode s = concat (map urlencode_byte s)"

definition params_toString :: "(string \<times> string) list \<Rightarrow> string" where
  "params_toString ps = join ''&'' (map (\<lambda>(k, v). urlencode k @ ''='' @ urlencode v) ps)"

definition FirebaseSDK_orderBy ::
  "'s environment \<Rightarrow> string \<Rightarrow> (string \<times> jsval) list \<Rightarrow> 's world \<Rightarrow> (error + jsval) \<times> 's world" where
  "FirebaseSDK_orderBy env path query w =
     andThen (getAccessToken env w) (\<lambda>token w1.
       let params = orderBy_params query in
       fetch env \<lparr> req_url = target w1 @ ''/'' @ path @ ''.json?'' @ params_toString params,
                   req_method = GET, req_cache = cache_mode w1, req_body = None,
                   req_headers = [bearer token] \<rparr> w1)"

subsection \<open>Writes\<close>

text \<open>The body of a PUT or PATCH: a string goes as it is, anything else through \<open>JSON.stringify\<close>.\<close>

definition write_body :: "jsval \<Rightarrow> string option" where
  "write_body v = (case v of JStr s \<Rightarrow> Some s | _ \<Rightarrow> JSON_stringify v)"

definition FirebaseSDK_set ::
  "'s environment \<Rightarrow> string \<Rightarrow> jsval \<Rightarrow> 's world \<Rightarrow> (error + unit) \<times> 's world" where
  "FirebaseSDK_set env path v w =
     andThen (getAccessToken env w) (\<lambda>token w1.
       andThen (fetch env \<lparr> req_url = target w1 @ ''/'' @ path @ ''.json'',
                   req_method = PUT, req_cache = cache_mode w1, req_body = write_body v,
                   req_headers = [(''Content-Type'', ''application/json; charset=utf8''),
                                  bearer token] \<rparr> w1)
         (\<lambda>_ w2. (Inr (), w2)))"

definition FirebaseSDK_push ::
  "'s environment \<Rightarrow> string \<Rightarrow> jsval \<Rightarrow> 's world \<Rightarrow> (error + jsval) \<times> 's world" where
  "FirebaseSDK_push env path v w =
     andThen (getAccessToken env w) (\<lambda>token w1.
       andThen (fetch env \<lparr> req_url = target w1 @ ''/'' @ path @ ''.json'',
                   req_method = POST, req_cache = cache_mode w1, req_body = JSON_stringify v,
                   req_headers = [(''Content-Type'', ''application/json; charset=utf-8''),
                                  bearer token] \<rparr> w1)
         (\<lambda>res w2. if res = JUndefined \<or> res = JNull then (Inl TypeError, w2)
                    else (Inr (js_member res ''name''), w2)))"

definition FirebaseSDK_update ::
  "'s environment \<Rightarrow> string \<Rightarrow> jsval \<Rightarrow> 's world \<Rightarrow> (error + unit) \<times> 's world" where
  "FirebaseSDK_update env path v w =
     andThen (getAccessToken env w) (\<lambda>token w1.
       andThen (fetch env \<lparr> req_url = target w1 @ ''/'' @ path @ ''.json'',
                   req_method = PATCH, req_cache = cache_mode w1, req_body = write_body v,
                   req_headers = [(''Content-Type'', ''application/json; charset=utf8''),
                                  bearer token] \<rparr> w1)
         (\<lambda>_ w2. (Inr (), w2)))"

definition FirebaseSDK_delete ::
  "'s environment \<Rightarrow> string \<Rightarrow> 's world \<Rightarrow> (error + unit) \<times> 's world" where
  "FirebaseSDK_delete env path w =
     andThen (getAccessToken env w) (\<lambda>token w1.
       andThen (fetch env \<lparr> req_url = target w1 @ ''/'' @ path @ ''.json'',
                   req_method = DELETE, req_cache = cache_mode w1, req_body = None,
                   req_headers = [bearer token] \<rparr> w1)
         (\<lambda>_ w2. (Inr (), w2)))"

text \<open>A run of \<open>n\<close> calls: for each, the clock reading it took, its outcome, the world after it.\<close>

fun getAccessToken_calls ::
  "'s environment \<Rightarrow> nat \<Rightarrow> 's world \<Rightarrow> (int \<times> (error + jsval) \<times> 's world) list" where
  "getAccessToken_calls env 0 w = []"
| "getAccessToken_calls env (Suc n) w =
     (case getAccessToken env w of
        (r, w') \<Rightarrow> (Date_now env (clock_reads w), r, w') # getAccessToken_calls env n w')"

section \<open>The accessor layer: FirebaseCollection and FirebaseTable\<close>

text \<open>
  The accessors hold a \<open>database\<close>, a schema and a path (\<open>name\<close>). The database is the
  transport they call. In the revision shipped with \<open>firebase.ts\<close> it is a \<open>FirebaseSDK\<close>;
  in the revision on \<open>firebase-admin\<close> it is that library's \<open>Database\<close>, where
  \<open>ref(p).get()\<close>, \<open>ref(p).set(v)\<close>, \<open>ref(p).update(v)\<close>, \<open>ref(p).remove()\<close> and
  \<open>ref(p).orderByChild(k).equalTo(v).get()\<close> take the places of \<open>get\<close>, \<open>set\<close>,
  \<open>update\<close>, \<open>delete\<close> and \<open>orderBy\<close> (the read yielding the snapshot's \<open>val()\<close>).
  Both are values of one record of operations over a world \<open>'w\<close>.
\<close>

record 'w database =
  db_get :: "string \<Rightarrow> 'w \<Rightarrow> (error + jsval) \<times> 'w"
  db_orderBy :: "string \<Rightarrow> (string \<times> jsval) list \<Rightarrow> 'w \<Rightarrow> (error + jsval) \<times> 'w"
  db_set :: "string \<Rightarrow> jsval \<Rightarrow> 'w \<Rightarrow> (error + unit) \<times> 'w"
  db_push :: "string \<Rightarrow> jsval \<Rightarrow> 'w \<Rightarrow> (error + jsval) \<times> 'w"
  db_update :: "string \<Rightarrow> jsval \<Rightarrow> 'w \<Rightarrow> (error + unit) \<times> 'w"
  db_delete :: "string \<Rightarrow> 'w \<Rightarrow> (error + unit) \<times> 'w"

definition FirebaseSDK_database :: "'s environment \<Rightarrow> 's world database" where
  "FirebaseSDK_database env =
     \<lparr> db_get = FirebaseSDK_get env, db_orderBy = FirebaseSDK_orderBy env,
       db_set = FirebaseSDK_set env, db_push = FirebaseSDK_push env,
       db_update = FirebaseSDK_update env, db_delete = FirebaseSDK_delete env \<rparr>"

text \<open>
  The schema is zod's: \<open>z.object( schema ).parse( value )\<close> yields the parsed value or
  throws with its diagnostics.
\<close>

type_synonym schema = "jsval \<Rightarrow> string + jsval"

definition schema_parse :: "schema \<Rightarrow> jsval \<Rightarrow> error + jsval" where
  "schema_parse schema v = (case schema v of Inl issues \<Rightarrow> Inl (ValidationError issues) | Inr data \<Rightarrow> Inr data)"

text \<open>A callback yields a value or throws; \<open>await\<close> on its result yields that value.\<close>

type_synonym callback = "jsval \<Rightarrow> error + jsval"

text \<open>
  \<open>snapshot.exists()\<close> of firebase-admin: the snapshot holds data, its \<open>val()\<close> is not
  \<open>null\<close>. (A \<open>val()\<close> is never \<open>undefined\<close>.)
\<close>

definition snapshot_exists :: "jsval \<Rightarrow> bool" where
  "snapshot_exists v = (v \<noteq> JNull)"

subsection \<open>FirebaseCollection\<close>

definition FirebaseCollection_get ::
  "'w database \<Rightarrow> string \<Rightarrow> 'w \<Rightarrow> (error + jsval) \<times> 'w" where
  "FirebaseCollection_get db name w = db_get db name w"

definition FirebaseCollection_get_admin ::
  "'w database \<Rightarrow> string \<Rightarrow> 'w \<Rightarrow> (error + jsval) \<times> 'w" where
  "FirebaseCollection_get_admin db name w =
     andThen (db_get db name w) (\<lambda>snapshot w1.
       (Inr (if snapshot_exists snapshot then snapshot else JUndefined), w1))"

text \<open>\<open>set\<close> is the same in both revisions.\<close>

definition FirebaseCollection_set ::
  "'w database \<Rightarrow> schema \<Rightarrow> string \<Rightarrow> jsval \<Rightarrow> 'w \<Rightarrow> (error + unit) \<times> 'w" where
  "FirebaseCollection_set db schema name v w =
     andThen (schema_parse schema v, w) (\<lambda>data w1. db_set db name data w1)"

definition FirebaseCollection_update ::
  "'w database \<Rightarrow> string \<Rightarrow> callback \<Rightarrow> 'w \<Rightarrow> (error + unit) \<times> 'w" where
  "FirebaseCollection_update db name FunctionCallback w =
     andThen (FirebaseCollection_get db name w) (\<lambda>legacy w1.
     andThen (FunctionCallback legacy, w1) (\<lambda>update w2.
       if truthy legacy then db_update db name update w2
       else db_set db name update w2))"

definition FirebaseCollection_update_admin ::
  "'w database \<Rightarrow> string \<Rightarrow> callback \<Rightarrow> 'w \<Rightarrow> (error + unit) \<times> 'w" where
  "FirebaseCollection_update_admin db name FunctionCallback w =
     andThen (FirebaseCollection_get_admin db name w) (\<lambda>legacy w1.
     andThen (FunctionCallback legacy, w1) (\<lambda>update w2.
       if truthy legacy then db_update db name update w2
       else db_set db name update w2))"

subsection \<open>FirebaseTable\<close>

definition FirebaseTable_create ::
  "'w database \<Rightarrow> schema \<Rightarrow> string \<Rightarrow> jsval \<Rightarrow> 'w \<Rightarrow> (error + jsval) \<times> 'w" where
  "FirebaseTable_create db schema name v w =
     andThen (schema_parse schema v, w) (\<lambda>data w1. db_push db name data w1)"

text \<open>On firebase-admin the id is a fresh \<open>uuid()\<close>, drawn from the world.\<close>

definition FirebaseTable_create_admin ::
  "'w database \<Rightarrow> ('w \<Rightarrow> string \<times> 'w) \<Rightarrow> schema \<Rightarrow> string \<Rightarrow> jsval \<Rightarrow> 'w \<Rightarrow> (error + jsval) \<times> 'w" where
  "FirebaseTable_create_admin db uuid schema name v w =
     andThen (schema_parse schema v, w) (\<lambda>data w1.
       case uuid w1 of (rid, w2) \<Rightarrow>
         andThen (db_set db (name @ ''/'' @ rid) data w2) (\<lambda>_ w3. (Inr (JStr rid), w3)))"

definition FirebaseTable_findById ::
  "'w database \<Rightarrow> string \<Rightarrow> string \<Rightarrow> 'w \<Rightarrow> (error + jsval) \<times> 'w" where
  "FirebaseTable_findById db name rid w =
     andThen (db_get db (name @ ''/'' @ rid) w) (\<lambda>response w1.
       if truthy response then (Inr response, w1) else (Inr JUndefined, w1))"

definition FirebaseTable_findById_admin ::
  "'w database \<Rightarrow> string \<Rightarrow> string \<Rightarrow> 'w \<Rightarrow> (error + jsval) \<times> 'w" where
  "FirebaseTable_findById_admin db name rid w =
     andThen (db_get db (name @ ''/'' @ rid) w) (\<lambda>snapshot w1.
       (Inr (if snapshot_exists snapshot then snapshot else JUndefined), w1))"

text \<open>
  \<open>{ ...snapshot[_id], _id }\<close> for the first key \<open>_id\<close> of the snapshot (\<open>key\<close> below).
  With no key at all, \<open>_id\<close> is \<open>undefined\<close> and so is \<open>snapshot[_id]\<close>.
\<close>

definition first_row :: "jsval \<Rightarrow> jsval" where
  "first_row snapshot =
     (let key = first_key (Object_keys snapshot)
      in JObj (obj_set (own_entries (js_member snapshot (js_to_string key))) ''_id'' key))"

definition FirebaseTable_findByChild ::
  "'w database \<Rightarrow> string \<Rightarrow> string \<Rightarrow> jsval \<Rightarrow> 'w \<Rightarrow> (error + jsval) \<times> 'w" where
  "FirebaseTable_findByChild db name wher v w =
     andThen (db_orderBy db name [(''orderBy'', JStr wher), (''equalTo'', v)] w) (\<lambda>snapshot w1.
       if truthy snapshot then (Inr (first_row snapshot), w1) else (Inr JUndefined, w1))"

definition FirebaseTable_findByChild_admin ::
  "'w database \<Rightarrow> string \<Rightarrow> string \<Rightarrow> jsval \<Rightarrow> 'w \<Rightarrow> (error + jsval) \<times> 'w" where
  "FirebaseTable_findByChild_admin db name wher v w =
     andThen (db_orderBy db name [(''orderBy'', JStr wher), (''equalTo'', v)] w) (\<lambda>snapshot w1.
       if snapshot_exists snapshot then (Inr (first_row snapshot), w1) else (Inr JUndefined, w1))"

text \<open>The body shared by both revisions of \<open>transitionByChild\<close>, after \<open>findByChild\<close>.\<close>

definition transition_child ::
  "'w database \<Rightarrow> string \<Rightarrow> callback \<Rightarrow> jsval \<Rightarrow> 'w \<Rightarrow> (error + unit) \<times> 'w" where
  "transition_child db name FunctionUpdate legacy w1 =
     (if truthy legacy
      then andThen (FunctionUpdate legacy, w1) (\<lambda>update w2.
             if truthy update
             then (let uid = js_member update ''_id''; data = obj_rest ''_id'' update
                   in db_update db (name @ ''/'' @ js_to_string uid) data w2)
             else (Inr (), w2))
      else (Inr (), w1))"

definition FirebaseTable_transitionByChild ::
  "'w database \<Rightarrow> string \<Rightarrow> string \<Rightarrow> jsval \<Rightarrow> callback \<Rightarrow> 'w \<Rightarrow> (error + unit) \<times> 'w" where
  "FirebaseTable_transitionByChild db name key v FunctionUpdate w =
     andThen (FirebaseTable_findByChild db name key v w) (transition_child db name FunctionUpdate)"

definition FirebaseTable_transitionByChild_admin ::
  "'w database \<Rightarrow> string \<Rightarrow> string \<Rightarrow> jsval \<Rightarrow> callback \<Rightarrow> 'w \<Rightarrow> (error + unit) \<times> 'w" where
  "FirebaseTable_transitionByChild_admin db name key v FunctionUpdate w =
     andThen (FirebaseTable_findByChild_admin db name key v w) (transition_child db name FunctionUpdate)"

text \<open>The body shared by both revisions of \<open>transitionById\<close>, after \<open>findById\<close>.\<close>

definition transition_id ::
  "'w database \<Rightarrow> string \<Rightarrow> string \<Rightarrow> callback \<Rightarrow> jsval \<Rightarrow> 'w \<Rightarrow> (error + unit) \<times> 'w" where
  "transition_id db name rid FunctionUpdate legacy w1 =
     (if truthy legacy
      then andThen (FunctionUpdate legacy, w1) (\<lambda>update w2.
             if truthy update then db_update db (name @ ''/'' @ rid) update w2
             else (Inr (), w2))
      else (Inr (), w1))"

definition FirebaseTable_transitionById ::
  "'w database \<Rightarrow> string \<Rightarrow> string \<Rightarrow> callback \<Rightarrow> 'w \<Rightarrow> (error + unit) \<times> 'w" where
  "FirebaseTable_transitionById db name rid FunctionUpdate w =
     andThen (FirebaseTable_findById db name rid w) (transition_id db name rid FunctionUpdate)"

definition FirebaseTable_transitionById_admin ::
  "'w database \<Rightarrow> string \<Rightarrow> string \<Rightarrow> callback \<Rightarrow> 'w \<Rightarrow> (error + unit) \<times> 'w" where
  "FirebaseTable_transitionById_admin db name rid FunctionUpdate w =
     andThen (FirebaseTable_findById_admin db name rid w) (transition_id db name rid FunctionUpdate)"

section \<open>Test fixtures\<close>

text \<open>
  A transport stub that records the calls it receives: every read is answered with one
  fixed value, every push with the key \<open>r1\<close>. Its world is the list of calls so far.
\<close>

datatype call =
    Get string
  | OrderBy string "(string \<times> jsval) list"
  | Set string jsval
  | Push string jsval
  | Update string jsval
  | Delete string

definition recording :: "jsval \<Rightarrow> call list database" where
  "recording answer =
     \<lparr> db_get = (\<lambda>path log. (Inr answer, log @ [Get path])),
       db_orderBy = (\<lambda>path query log. (Inr answer, log @ [OrderBy path query])),
       db_set = (\<lambda>path v log. (Inr (), log @ [Set path v])),
       db_push = (\<lambda>path v log. (Inr (JStr ''r1''), log @ [Push path v])),
       db_update = (\<lambda>path v log. (Inr (), log @ [Update path v])),
       db_delete = (\<lambda>path log. (Inr (), log @ [Delete path])) \<rparr>"

text \<open>The schema \<open>{ name: zod.string(), price: zod.number().positive() }\<close>.\<close>

definition product_schema :: schema where
  "product_schema v =
     (case js_member v ''name'' of
        JStr n \<Rightarrow>
          (case js_member v ''price'' of
             JNum p \<Rightarrow> if 0 < p then Inr (JObj [(''name'', JStr n), (''price'', JNum p)])
                       else Inl ''price: Number must be greater than 0''
           | _ \<Rightarrow> Inl ''price: Expected number'')
      | _ \<Rightarrow> Inl ''name: Expected string'')"

text \<open>
  A clock that reads 1000, then 1100, then 4001000; a provider whose \<open>n\<close>-th token is
  \<open>token-n\<close>; a store that holds nothing, answers a POST with the key \<open>r1\<close> and counts
  the writes it has taken.
\<close>

definition scenario_env :: "nat environment" where
  "scenario_env =
     \<lparr> Date_now = (\<lambda>n. if n = 0 then 1000 else if n = 1 then 1100 else 4001000),
       auth_getAccessToken = (\<lambda>n. Inr (JStr (''token-'' @ show_nat n))),
       store_read = (\<lambda>s r. Inr JNull),
       store_write = (\<lambda>s r. (if req_method r = POST then Inr (JObj [(''name'', JStr ''r1'')])
                               else Inr JNull, Suc s)) \<rparr>"

definition scenario_world :: "nat world" where
  "scenario_world = FirebaseSDK_new ''https://example.firebaseio.com/'' None 0"

text \<open>
  The worlds of the scenario: a token cached at 1000, the cache just before the call at
  4001000, and the cache after that call.
\<close>

definition cached_world :: "nat world" where
  "cached_world = scenario_world\<lparr>clock_reads := 1, auth_calls := 1,
                      storage_token := JStr ''token-0'', storage_expire := 3301000\<rparr>"

definition stale_world :: "nat world" where
  "stale_world = cached_world\<lparr>clock_reads := 2\<rparr>"

definition refreshed_world :: "nat world" where
  "refreshed_world = stale_world\<lparr>clock_reads := 3, auth_calls := 2,
                      storage_token := JStr ''token-1'', storage_expire := 7301000\<rparr>"

text \<open>
  Two products, the second violating \<open>price > 0\<close>; a query snapshot holding the first
  under the key \<open>r1\<close>; an updater that returns a row tagged with another id; the updater
  \<open>row => ({ ...row, price: -5 })\<close>; a query with two string values and a number.
\<close>

definition good_product :: jsval where
  "good_product = JObj [(''name'', JStr ''Pen''), (''price'', JNum 1)]"

definition bad_product :: jsval where
  "bad_product = JObj [(''name'', JStr ''Pen''), (''price'', JNum (- 5))]"

definition product_rows :: jsval where
  "product_rows = JObj [(''r1'', good_product)]"

definition rename_updater :: callback where
  "rename_updater row = Inr (JObj [(''_id'', JStr ''r2''), (''name'', JStr ''Pencil'')])"

definition reprice_updater :: callback where
  "reprice_updater row = Inr (JObj (obj_set (own_entries row) ''price'' (JNum (- 5))))"

text \<open>The updater \<open>row => ({ ...row, price: 2 })\<close>.\<close>

definition restock_updater :: callback where
  "restock_updater row = Inr (JObj (obj_set (own_entries row) ''price'' (JNum 2)))"

text \<open>A \<open>uuid()\<close> that always draws \<open>u7\<close>.\<close>

definition fixed_uuid :: "call list \<Rightarrow> string \<times> call list" where
  "fixed_uuid log = (''u7'', log)"

text \<open>The scenario with a store that answers every read with the first product.\<close>

definition stocked_env :: "nat environment" where
  "stocked_env = scenario_env\<lparr>store_read := (\<lambda>s r. Inr good_product)\<rparr>"

text \<open>The scenario with a store that answers every read with the object without keys.\<close>

definition keyless_env :: "nat environment" where
  "keyless_env = scenario_env\<lparr>store_read := (\<lambda>s r. Inr (JObj []))\<rparr>"


section \<open>The serialisation rule of the specification\<close>


section \<open>Evaluation lemmas\<close>

lemma show_nat_digit: "n < 10 \<Longrightarrow> show_nat n = [digit_char n]"
  by (simp add: show_nat.simps [of n])

lemmas world_defs = cached_world_def stale_world_def refreshed_world_def

lemmas scenario_defs = scenario_env_def scenario_world_def FirebaseSDK_new_def ends_with_slash_def
  getAccessToken_def andThen_def Let_def show_nat_digit digit_char_def

lemmas accessor_defs =
  FirebaseCollection_update_def FirebaseCollection_update_admin_def
  FirebaseCollection_get_def FirebaseCollection_get_admin_def
  FirebaseTable_transitionByChild_def FirebaseTable_transitionByChild_admin_def
  FirebaseTable_findByChild_def FirebaseTable_findByChild_admin_def
  FirebaseTable_transitionById_def FirebaseTable_transitionById_admin_def
  FirebaseTable_findById_def FirebaseTable_findById_admin_def
  transition_child_def transition_id_def andThen_def snapshot_exists_def

lemmas fixture_defs =
  recording_def good_product_def bad_product_def product_rows_def
  rename_updater_def reprice_updater_def

lemmas object_defs =
  first_row_def first_key_def Object_keys_def js_member_def obj_rest_def Let_def

lemma scenario_reuse:
  "getAccessToken scenario_env cached_world = (Inr (JStr ''token-0''), stale_world)"
  by (simp add: world_defs scenario_defs)

lemma scenario_refresh:
  "getAccessToken scenario_env stale_world = (Inr (JStr ''token-1''), refreshed_world)"
  by (simp add: world_defs scenario_defs)

lemma bad_product_rejected:
  "product_schema bad_product = Inl ''price: Number must be greater than 0''"
  by (simp add: product_schema_def bad_product_def js_member_def)

lemma product_rows_first:
  "first_row product_rows = JObj [(''name'', JStr ''Pen''), (''price'', JNum 1), (''_id'', JStr ''r1'')]"
  by (simp add: fixture_defs object_defs)

section \<open>Facts about the transport\<close>

text \<open>Looking the token up touches neither the requests sent nor the store nor the configuration.\<close>

lemma getAccessToken_sent:
  "getAccessToken env w = (r, w1) \<Longrightarrow>
     sent w1 = sent w \<and> remote w1 = remote w \<and> target w1 = target w \<and> cache_mode w1 = cache_mode w"
  by (auto simp: getAccessToken_def andThen_def Let_def split: sum.splits if_splits)

lemma getAccessToken_fresh_enough:
  "getAccessToken env w = (Inr tok, w') \<Longrightarrow>
     storage_token w' = tok \<and> Date_now env (clock_reads w) \<le> storage_expire w'"
  by (auto simp: getAccessToken_def andThen_def Let_def split: sum.splits if_splits)

text \<open>A read that returns has sent one GET and left the store as it was.\<close>

lemma FirebaseSDK_get_reads:
  assumes "FirebaseSDK_get env path w = (Inr x, w1)"
  shows "remote w1 = remote w \<and> (\<exists>r. sent w1 = sent w @ [r] \<and> req_method r = GET)"
proof -
  obtain t w0 where tok: "getAccessToken env w = (t, w0)"
    by (cases "getAccessToken env w")
  show ?thesis
    using assms tok getAccessToken_sent [OF tok]
    by (cases t) (auto simp: FirebaseSDK_get_def andThen_def fetch_def)
qed

lemma FirebaseSDK_orderBy_reads:
  assumes "FirebaseSDK_orderBy env path query w = (Inr x, w1)"
  shows "remote w1 = remote w \<and> (\<exists>r. sent w1 = sent w @ [r] \<and> req_method r = GET)"
proof -
  obtain t w0 where tok: "getAccessToken env w = (t, w0)"
    by (cases "getAccessToken env w")
  show ?thesis
    using assms tok getAccessToken_sent [OF tok]
    by (cases t) (auto simp: FirebaseSDK_orderBy_def andThen_def fetch_def Let_def)
qed

lemma findByChild_reads:
  assumes "FirebaseTable_findByChild (FirebaseSDK_database env) name key v w = (Inr legacy, w1)"
  shows "remote w1 = remote w \<and> (\<exists>r. sent w1 = sent w @ [r] \<and> req_method r = GET)"
proof -
  obtain a w0 where
    look: "FirebaseSDK_orderBy env name [(''orderBy'', JStr key), (''equalTo'', v)] w = (a, w0)"
    by (cases "FirebaseSDK_orderBy env name [(''orderBy'', JStr key), (''equalTo'', v)] w")
  from assms look obtain x where "a = Inr x" "w1 = w0"
    by (cases a)
       (auto simp: FirebaseTable_findByChild_def FirebaseSDK_database_def andThen_def
             split: if_splits)
  with look FirebaseSDK_orderBy_reads [of env name _ w x w0] show ?thesis by simp
qed

lemma findById_reads:
  assumes "FirebaseTable_findById (FirebaseSDK_database env) name rid w = (Inr legacy, w1)"
  shows "remote w1 = remote w \<and> (\<exists>r. sent w1 = sent w @ [r] \<and> req_method r = GET)"
proof -
  obtain a w0 where look: "FirebaseSDK_get env (name @ ''/'' @ rid) w = (a, w0)"
    by (cases "FirebaseSDK_get env (name @ ''/'' @ rid) w")
  from assms look obtain x where "a = Inr x" "w1 = w0"
    by (cases a)
       (auto simp: FirebaseTable_findById_def FirebaseSDK_database_def andThen_def
             split: if_splits)
  with look FirebaseSDK_get_reads [of env _ w x w0] show ?thesis by simp
qed

section \<open>Facts about values\<close>

lemma json_escape_char_nonempty: "json_escape_char c \<noteq> []"
  by (simp add: json_escape_char_def)

lemma json_quote_differs: "s \<noteq> json_quote s"
proof -
  have "length s \<le> length (concat (map json_escape_char s))"
  proof (induction s)
    case Nil
    show ?case by simp
  next
    case (Cons c s)
    have "1 \<le> length (json_escape_char c)"
      using json_escape_char_nonempty [of c] by (cases "json_escape_char c") auto
    with Cons show ?case by simp
  qed
  then have "length s < length (json_quote s)"
    by (simp add: json_quote_def)
  then show ?thesis by auto
qed

lemma map_of_obj_set: "map_of (obj_set kvs k v) k = Some v"
  by (induction kvs) auto

lemma first_row_id:
  "Object_keys snapshot = i # others \<Longrightarrow> js_member (first_row snapshot) ''_id'' = JStr i"
  by (simp add: first_row_def first_key_def js_member_def map_of_obj_set Let_def)

lemma keys_truthy:
  "Object_keys snapshot = i # others \<Longrightarrow> truthy snapshot \<and> snapshot_exists snapshot"
  by (cases snapshot) (auto simp: Object_keys_def snapshot_exists_def)

lemma first_row_truthy: "truthy (first_row snapshot)"
  by (simp add: first_row_def Let_def)

lemma obj_rest_no_key: "k \<notin> set (Object_keys (obj_rest k v))"
  by (auto simp: obj_rest_def Object_keys_def)

lemma truthy_legacy_admin:
  "truthy (if snapshot_exists previous then previous else JUndefined) = truthy previous"
  by (cases previous) (simp_all add: snapshot_exists_def)







text \<open>A declined transition: the lookup found nothing, or the updater yielded a falsy value.\<close>

lemma transition_child_declined:
  "\<not> truthy legacy \<or> (\<exists>u. FunctionUpdate legacy = Inr u \<and> \<not> truthy u) \<Longrightarrow>
     transition_child db name FunctionUpdate legacy w1 = (Inr (), w1)"
  by (auto simp: transition_child_def andThen_def)

lemma transition_id_declined:
  "\<not> truthy legacy \<or> (\<exists>u. FunctionUpdate legacy = Inr u \<and> \<not> truthy u) \<Longrightarrow>
     transition_id db name rid FunctionUpdate legacy w1 = (Inr (), w1)"
  by (auto simp: transition_id_def andThen_def)

section \<open>The token cache\<close>

text \<open>
  Claim C2. A call of \<open>getAccessToken\<close> that finds no token cached (the cached token is
  falsy) or finds the cached expiry behind the clock asks the auth provider exactly once,
  and, when the provider yields a token, stores it with expiry equal to the call time plus
  3300000 ms and returns it. A call that finds a token whose expiry has not passed returns
  that token, leaves token and expiry as they were and does not ask the provider.
\<close>

theorem getAccessToken_refresh_or_reuse:
  assumes "getAccessToken env w = (r, w')"
  shows "((\<not> truthy (storage_token w) \<or> storage_expire w < Date_now env (clock_reads w)) \<longrightarrow>
           auth_calls w' = Suc (auth_calls w) \<and>
           (\<forall>fresh. auth_getAccessToken env (auth_calls w) = Inr fresh \<longrightarrow>
              r = Inr fresh \<and> storage_token w' = fresh \<and>
              storage_expire w' = Date_now env (clock_reads w) + 3300000))
       \<and> ((truthy (storage_token w) \<and> Date_now env (clock_reads w) \<le> storage_expire w) \<longrightarrow>
           r = Inr (storage_token w) \<and> storage_token w' = storage_token w \<and>
           storage_expire w' = storage_expire w \<and> auth_calls w' = auth_calls w)"
  using assms
  by (auto simp: getAccessToken_def andThen_def Let_def split: sum.splits if_splits)

text \<open>
  The scenario of the specification: with the token cached at 1000 (expiry 3301000) the
  call at 1100 reuses it, and the call at 4001000 refreshes exactly once.
\<close>

theorem getAccessToken_refresh_or_reuse_witness:
  "getAccessToken scenario_env cached_world = (Inr (JStr ''token-0''), stale_world) \<and>
   truthy (storage_token cached_world) \<and>
   Date_now scenario_env (clock_reads cached_world) \<le> storage_expire cached_world \<and>
   storage_token stale_world = storage_token cached_world \<and>
   storage_expire stale_world = storage_expire cached_world \<and>
   auth_calls stale_world = auth_calls cached_world \<and>
   getAccessToken scenario_env stale_world = (Inr (JStr ''token-1''), refreshed_world) \<and>
   storage_expire stale_world < Date_now scenario_env (clock_reads stale_world) \<and>
   auth_getAccessToken scenario_env (auth_calls stale_world) = Inr (JStr ''token-1'') \<and>
   auth_calls refreshed_world = Suc (auth_calls stale_world) \<and>
   storage_token refreshed_world = JStr ''token-1'' \<and>
   storage_expire refreshed_world = Date_now scenario_env (clock_reads stale_world) + 3300000"
proof -
  note reuse = scenario_reuse
  have cached: "truthy (storage_token cached_world) \<and>
      Date_now scenario_env (clock_reads cached_world) \<le> storage_expire cached_world"
    by (simp add: world_defs scenario_env_def scenario_world_def FirebaseSDK_new_def)
  note refresh = scenario_refresh
  have stale: "storage_expire stale_world < Date_now scenario_env (clock_reads stale_world)"
    by (simp add: world_defs scenario_env_def scenario_world_def FirebaseSDK_new_def)
  have fresh: "auth_getAccessToken scenario_env (auth_calls stale_world) = Inr (JStr ''token-1'')"
    by (simp add: world_defs scenario_env_def scenario_world_def FirebaseSDK_new_def
                  show_nat_digit digit_char_def)
  from getAccessToken_refresh_or_reuse [OF reuse] cached
  have kept: "storage_token stale_world = storage_token cached_world \<and>
      storage_expire stale_world = storage_expire cached_world \<and>
      auth_calls stale_world = auth_calls cached_world"
    by blast
  from getAccessToken_refresh_or_reuse [OF refresh] stale fresh
  have renewed: "auth_calls refreshed_world = Suc (auth_calls stale_world) \<and>
      storage_token refreshed_world = JStr ''token-1'' \<and>
      storage_expire refreshed_world = Date_now scenario_env (clock_reads stale_world) + 3300000"
    by blast
  from reuse cached refresh stale fresh kept renewed show ?thesis by blast
qed

text \<open>
  Claim C9. In any run of calls of \<open>getAccessToken\<close>, at arbitrary clock readings, a call
  that returns a token returns the cached one, and the expiry cached with it is not
  earlier than the clock reading the call took.
\<close>

theorem getAccessToken_never_expired:
  "(now, Inr tok, w') \<in> set (getAccessToken_calls env n w) \<Longrightarrow>
     storage_token w' = tok \<and> now \<le> storage_expire w'"
proof (induction n arbitrary: w)
  case 0
  then show ?case by simp
next
  case (Suc n)
  obtain r w1 where step: "getAccessToken env w = (r, w1)"
    by (cases "getAccessToken env w")
  from Suc.prems step
  consider "now = Date_now env (clock_reads w)" "r = Inr tok" "w' = w1"
    | "(now, Inr tok, w') \<in> set (getAccessToken_calls env n w1)"
    by auto
  then show ?case
  proof cases
    case 1
    with step getAccessToken_fresh_enough [of env w tok w1] show ?thesis by simp
  next
    case 2
    then show ?thesis by (rule Suc.IH)
  qed
qed

lemma scenario_run:
  "getAccessToken_calls scenario_env 2 cached_world =
     [(1100, Inr (JStr ''token-0''), stale_world),
      (4001000, Inr (JStr ''token-1''), refreshed_world)]"
proof -
  have t1: "Date_now scenario_env (clock_reads cached_world) = 1100"
    by (simp add: world_defs scenario_env_def scenario_world_def FirebaseSDK_new_def)
  have t2: "Date_now scenario_env (clock_reads stale_world) = 4001000"
    by (simp add: world_defs scenario_env_def scenario_world_def FirebaseSDK_new_def)
  show ?thesis
    by (simp add: numeral_2_eq_2 scenario_reuse scenario_refresh t1 t2)
qed

theorem getAccessToken_never_expired_witness:
  "(4001000, Inr (JStr ''token-1''), refreshed_world)
      \<in> set (getAccessToken_calls scenario_env 2 cached_world) \<and>
   storage_token refreshed_world = JStr ''token-1'' \<and>
   4001000 \<le> storage_expire refreshed_world"
proof -
  have run: "(4001000, Inr (JStr ''token-1''), refreshed_world)
      \<in> set (getAccessToken_calls scenario_env 2 cached_world)"
    by (simp add: scenario_run)
  from getAccessToken_never_expired [OF run] run show ?thesis by blast
qed

section \<open>The transport's bodies and query strings\<close>

text \<open>
  Claim C10. When the token is obtained, \<open>set\<close> sends one PUT and \<open>update\<close> one PATCH
  whose body is the value itself when the value is a string, and \<open>JSON.stringify\<close> of the
  value otherwise; a string is never its own JSON encoding.
\<close>

theorem write_body_string_verbatim:
  assumes "getAccessToken env w = (Inr token, w1)"
  shows "(\<exists>r. sent (snd (FirebaseSDK_set env path v w)) = sent w @ [r] \<and> req_method r = PUT \<and>
              req_body r = (case v of JStr s \<Rightarrow> Some s | _ \<Rightarrow> JSON_stringify v)) \<and>
         (\<exists>r. sent (snd (FirebaseSDK_update env path v w)) = sent w @ [r] \<and> req_method r = PATCH \<and>
              req_body r = (case v of JStr s \<Rightarrow> Some s | _ \<Rightarrow> JSON_stringify v)) \<and>
         (\<forall>s. Some s \<noteq> JSON_stringify (JStr s))"
proof -
  have sent1: "sent w1 = sent w" using getAccessToken_sent [OF assms] by simp
  have a: "\<exists>r. sent (snd (FirebaseSDK_set env path v w)) = sent w @ [r] \<and> req_method r = PUT \<and>
              req_body r = (case v of JStr s \<Rightarrow> Some s | _ \<Rightarrow> JSON_stringify v)"
    using assms sent1
    by (auto simp: FirebaseSDK_set_def andThen_def fetch_def write_body_def
             split: sum.splits prod.splits)
  have b: "\<exists>r. sent (snd (FirebaseSDK_update env path v w)) = sent w @ [r] \<and> req_method r = PATCH \<and>
              req_body r = (case v of JStr s \<Rightarrow> Some s | _ \<Rightarrow> JSON_stringify v)"
    using assms sent1
    by (auto simp: FirebaseSDK_update_def andThen_def fetch_def write_body_def
             split: sum.splits prod.splits)
  have c: "\<forall>s. Some s \<noteq> JSON_stringify (JStr s)"
    using json_quote_differs by (auto simp: JSON_stringify_def)
  from a b c show ?thesis by blast
qed

theorem write_body_string_verbatim_witness:
  "getAccessToken scenario_env cached_world = (Inr (JStr ''token-0''), stale_world) \<and>
   (\<exists>r. sent (snd (FirebaseSDK_set scenario_env ''settings'' (JStr ''{ \"theme\": 1 }'') cached_world))
            = sent cached_world @ [r] \<and>
         req_method r = PUT \<and> req_body r = Some ''{ \"theme\": 1 }'') \<and>
   (\<exists>r. sent (snd (FirebaseSDK_update scenario_env ''settings'' (JObj [(''theme'', JNum 1)]) cached_world))
            = sent cached_world @ [r] \<and>
         req_method r = PATCH \<and> req_body r = Some ''{\"theme\":1}'')"
proof -
  have enc: "JSON_stringify (JObj [(''theme'', JNum 1)]) = Some ''{\"theme\":1}''"
    by (simp add: JSON_stringify_def json_quote_def json_escape_char_def show_int_def
                  show_nat_digit digit_char_def)
  from write_body_string_verbatim [OF scenario_reuse, of "''settings''" "JStr ''{ \"theme\": 1 }''"]
       write_body_string_verbatim [OF scenario_reuse, of "''settings''" "JObj [(''theme'', JNum 1)]"]
       scenario_reuse enc
  show ?thesis by simp
qed



section \<open>The accessors\<close>

text \<open>
  Claim C5. When the schema rejects the value, \<open>FirebaseCollection.set\<close> fails with the
  ValidationError carrying the schema's diagnostics, and the world is the one before the
  call, whatever the transport is: no transport operation has run.
\<close>

theorem set_invalid_no_transport:
  "schema v = Inl issues \<Longrightarrow>
     FirebaseCollection_set db schema name v w = (Inl (ValidationError issues), w)"
  by (simp add: FirebaseCollection_set_def schema_parse_def andThen_def)

theorem set_invalid_no_transport_witness:
  "product_schema bad_product = Inl ''price: Number must be greater than 0'' \<and>
   FirebaseCollection_set (recording JNull) product_schema ''product'' bad_product []
     = (Inl (ValidationError ''price: Number must be greater than 0''), []) \<and>
   FirebaseCollection_set (FirebaseSDK_database scenario_env) product_schema ''product''
       bad_product scenario_world
     = (Inl (ValidationError ''price: Number must be greater than 0''), scenario_world)"
  using set_invalid_no_transport [where schema = product_schema and v = bad_product
          and db = "recording JNull" and name = "''product''" and w = "[]"]
        set_invalid_no_transport [where schema = product_schema and v = bad_product
          and db = "FirebaseSDK_database scenario_env" and name = "''product''"
          and w = scenario_world]
        bad_product_rejected
  by simp

text \<open>
  What \<open>update\<close> does with the result of the callback is decided by the truthiness of
  the value read.
\<close>

lemma update_by_truthiness:
  assumes "db_get db name w = (Inr previous, w1)"
  shows "(\<forall>result. FunctionCallback previous = Inr result \<longrightarrow>
            FirebaseCollection_update db name FunctionCallback w
              = (if truthy previous then db_update db name result w1
                 else db_set db name result w1)) \<and>
         (\<forall>result.
            FunctionCallback (if snapshot_exists previous then previous else JUndefined) = Inr result \<longrightarrow>
            FirebaseCollection_update_admin db name FunctionCallback w
              = (if truthy previous then db_update db name result w1
                 else db_set db name result w1))"
  using assms
  by (simp add: FirebaseCollection_update_def FirebaseCollection_update_admin_def
        FirebaseCollection_get_def FirebaseCollection_get_admin_def andThen_def
        truthy_legacy_admin)

text \<open>
  Claim C3. \<open>FirebaseCollection.update\<close> reads the current value and calls the callback
  with it. The value read is a document (a JSON object) or absent (\<open>null\<close>; on
  firebase-admin the callback then receives \<open>undefined\<close>). When the callback returns and
  a previous document existed, \<open>update\<close> is a merge of the callback's result at the bound
  path, on the world left by the read; when no previous value existed, it is a full write
  of the callback's result there.
\<close>

theorem update_merges_existing_writes_absent:
  assumes "db_get db name w = (Inr previous, w1)"
  shows "(\<forall>fields result.
            previous = JObj fields \<and> FunctionCallback previous = Inr result \<longrightarrow>
            FirebaseCollection_update db name FunctionCallback w = db_update db name result w1 \<and>
            FirebaseCollection_update_admin db name FunctionCallback w = db_update db name result w1) \<and>
         (\<forall>result.
            previous = JNull \<and> FunctionCallback JNull = Inr result \<longrightarrow>
            FirebaseCollection_update db name FunctionCallback w = db_set db name result w1) \<and>
         (\<forall>result.
            previous = JNull \<and> FunctionCallback JUndefined = Inr result \<longrightarrow>
            FirebaseCollection_update_admin db name FunctionCallback w = db_set db name result w1)"
  using assms
  by (auto simp: FirebaseCollection_update_def FirebaseCollection_update_admin_def
        FirebaseCollection_get_def FirebaseCollection_get_admin_def andThen_def
        snapshot_exists_def)

theorem update_merges_existing_writes_absent_witness:
  "db_get (recording good_product) ''product'' [] = (Inr good_product, [Get ''product'']) \<and>
   good_product = JObj [(''name'', JStr ''Pen''), (''price'', JNum 1)] \<and>
   restock_updater good_product = Inr (JObj [(''name'', JStr ''Pen''), (''price'', JNum 2)]) \<and>
   FirebaseCollection_update (recording good_product) ''product'' restock_updater []
     = (Inr (), [Get ''product'',
                 Update ''product'' (JObj [(''name'', JStr ''Pen''), (''price'', JNum 2)])]) \<and>
   FirebaseCollection_update_admin (recording good_product) ''product'' restock_updater []
     = (Inr (), [Get ''product'',
                 Update ''product'' (JObj [(''name'', JStr ''Pen''), (''price'', JNum 2)])]) \<and>
   db_get (recording JNull) ''product'' [] = (Inr JNull, [Get ''product'']) \<and>
   FirebaseCollection_update (recording JNull) ''product'' (\<lambda>legacy. Inr good_product) []
     = (Inr (), [Get ''product'', Set ''product'' good_product]) \<and>
   FirebaseCollection_update_admin (recording JNull) ''product'' (\<lambda>legacy. Inr good_product) []
     = (Inr (), [Get ''product'', Set ''product'' good_product])"
proof -
  have present: "db_get (recording good_product) ''product'' [] = (Inr good_product, [Get ''product''])"
    by (simp add: recording_def)
  have absent: "db_get (recording JNull) ''product'' [] = (Inr JNull, [Get ''product''])"
    by (simp add: recording_def)
  have doc: "good_product = JObj [(''name'', JStr ''Pen''), (''price'', JNum 1)]"
    by (simp add: good_product_def)
  have upd: "restock_updater good_product = Inr (JObj [(''name'', JStr ''Pen''), (''price'', JNum 2)])"
    by (simp add: restock_updater_def good_product_def)
  have pre: "good_product = JObj [(''name'', JStr ''Pen''), (''price'', JNum 1)] \<and>
      restock_updater good_product = Inr (JObj [(''name'', JStr ''Pen''), (''price'', JNum 2)])"
    using doc upd by simp
  have merged: "FirebaseCollection_update (recording good_product) ''product'' restock_updater []
         = (Inr (), [Get ''product'',
                     Update ''product'' (JObj [(''name'', JStr ''Pen''), (''price'', JNum 2)])]) \<and>
       FirebaseCollection_update_admin (recording good_product) ''product'' restock_updater []
         = (Inr (), [Get ''product'',
                     Update ''product'' (JObj [(''name'', JStr ''Pen''), (''price'', JNum 2)])])"
    using update_merges_existing_writes_absent [where FunctionCallback = restock_updater,
            OF present, THEN conjunct1, rule_format, OF pre]
    by (simp add: recording_def)
  have pre2: "JNull = JNull \<and> (\<lambda>legacy. Inr good_product) JNull = Inr good_product"
    by simp
  have written: "FirebaseCollection_update (recording JNull) ''product'' (\<lambda>legacy. Inr good_product) []
         = (Inr (), [Get ''product'', Set ''product'' good_product])"
    using update_merges_existing_writes_absent [where FunctionCallback = "\<lambda>legacy. Inr good_product",
            OF absent, THEN conjunct2, THEN conjunct1, rule_format, OF pre2]
    by (simp add: recording_def)
  have pre3: "JNull = JNull \<and> (\<lambda>legacy. Inr good_product) JUndefined = Inr good_product"
    by simp
  have written_admin: "FirebaseCollection_update_admin (recording JNull) ''product'' (\<lambda>legacy. Inr good_product) []
         = (Inr (), [Get ''product'', Set ''product'' good_product])"
    using update_merges_existing_writes_absent [where FunctionCallback = "\<lambda>legacy. Inr good_product",
            OF absent, THEN conjunct2, THEN conjunct2, rule_format, OF pre3]
    by (simp add: recording_def)
  from present absent doc upd merged written written_admin show ?thesis by blast
qed

text \<open>
  Claim C4, as the code has it. When the filtered read yields a snapshot whose first key
  is \<open>i\<close>, the row handed to the updater is tagged \<open>_id = i\<close>; when the updater yields a
  truthy value, \<open>transitionByChild\<close> is exactly one merge, on the world left by the read,
  of the updater's result without its \<open>_id\<close> property, at the table path joined with the
  \<open>_id\<close> of the updater's result. That path is the path of the found row whenever the
  updater's result carries the row's own \<open>_id\<close>.
\<close>

theorem transitionByChild_merge_target:
  assumes "db_orderBy db name [(''orderBy'', JStr key), (''equalTo'', v)] w = (Inr snapshot, w1)"
      and "Object_keys snapshot = i # others"
      and "FunctionUpdate (first_row snapshot) = Inr update"
      and "truthy update"
  shows "js_member (first_row snapshot) ''_id'' = JStr i \<and>
         FirebaseTable_transitionByChild db name key v FunctionUpdate w
           = db_update db (name @ ''/'' @ js_to_string (js_member update ''_id''))
               (obj_rest ''_id'' update) w1 \<and>
         FirebaseTable_transitionByChild_admin db name key v FunctionUpdate w
           = db_update db (name @ ''/'' @ js_to_string (js_member update ''_id''))
               (obj_rest ''_id'' update) w1 \<and>
         ''_id'' \<notin> set (Object_keys (obj_rest ''_id'' update)) \<and>
         (js_member update ''_id'' = JStr i \<longrightarrow>
            name @ ''/'' @ js_to_string (js_member update ''_id'') = name @ ''/'' @ i)"
proof -
  note found = keys_truthy [OF assms(2)]
  have a: "FirebaseTable_transitionByChild db name key v FunctionUpdate w
           = db_update db (name @ ''/'' @ js_to_string (js_member update ''_id''))
               (obj_rest ''_id'' update) w1"
    using assms found
    by (simp add: FirebaseTable_transitionByChild_def FirebaseTable_findByChild_def
          transition_child_def andThen_def first_row_truthy Let_def)
  have b: "FirebaseTable_transitionByChild_admin db name key v FunctionUpdate w
           = db_update db (name @ ''/'' @ js_to_string (js_member update ''_id''))
               (obj_rest ''_id'' update) w1"
    using assms found
    by (simp add: FirebaseTable_transitionByChild_admin_def FirebaseTable_findByChild_admin_def
          transition_child_def andThen_def first_row_truthy Let_def)
  show ?thesis
    using a b first_row_id [OF assms(2)] obj_rest_no_key [of "''_id''" update] by simp
qed

theorem transitionByChild_merge_target_witness:
  "db_orderBy (recording product_rows) ''products''
       [(''orderBy'', JStr ''name''), (''equalTo'', JStr ''Pen'')] []
     = (Inr product_rows,
        [OrderBy ''products'' [(''orderBy'', JStr ''name''), (''equalTo'', JStr ''Pen'')]]) \<and>
   Object_keys product_rows = [''r1''] \<and>
   reprice_updater (first_row product_rows)
     = Inr (JObj [(''name'', JStr ''Pen''), (''price'', JNum (- 5)), (''_id'', JStr ''r1'')]) \<and>
   FirebaseTable_transitionByChild (recording product_rows) ''products'' ''name'' (JStr ''Pen'')
       reprice_updater []
     = (Inr (), [OrderBy ''products'' [(''orderBy'', JStr ''name''), (''equalTo'', JStr ''Pen'')],
                 Update ''products/r1'' bad_product]) \<and>
   FirebaseTable_transitionByChild_admin (recording product_rows) ''products'' ''name'' (JStr ''Pen'')
       reprice_updater []
     = (Inr (), [OrderBy ''products'' [(''orderBy'', JStr ''name''), (''equalTo'', JStr ''Pen'')],
                 Update ''products/r1'' bad_product])"
proof -
  have look: "db_orderBy (recording product_rows) ''products''
       [(''orderBy'', JStr ''name''), (''equalTo'', JStr ''Pen'')] []
     = (Inr product_rows,
        [OrderBy ''products'' [(''orderBy'', JStr ''name''), (''equalTo'', JStr ''Pen'')]])"
    by (simp add: recording_def)
  have keys: "Object_keys product_rows = [''r1'']"
    by (simp add: fixture_defs object_defs)
  have upd: "reprice_updater (first_row product_rows)
     = Inr (JObj [(''name'', JStr ''Pen''), (''price'', JNum (- 5)), (''_id'', JStr ''r1'')])"
    by (simp add: product_rows_first reprice_updater_def)
  have tr: "truthy (JObj [(''name'', JStr ''Pen''), (''price'', JNum (- 5)), (''_id'', JStr ''r1'')])"
    by simp
  from transitionByChild_merge_target [where FunctionUpdate = reprice_updater, OF look keys upd tr]
       look keys upd
  show ?thesis
    by (simp add: recording_def bad_product_def object_defs)
qed

text \<open>
  The claim as stated fails where the updater's result names another row: the row found
  is \<open>r1\<close>, the updater returns a document tagged \<open>r2\<close>, and the merge goes to
  \<open>products/r2\<close>.
\<close>

theorem transitionByChild_other_id_counterexample:
  "Object_keys product_rows = [''r1''] \<and>
   FirebaseTable_transitionByChild (recording product_rows) ''products'' ''name'' (JStr ''Pen'')
       rename_updater []
     = (Inr (), [OrderBy ''products'' [(''orderBy'', JStr ''name''), (''equalTo'', JStr ''Pen'')],
                 Update ''products/r2'' (JObj [(''name'', JStr ''Pencil'')])]) \<and>
   FirebaseTable_transitionByChild_admin (recording product_rows) ''products'' ''name'' (JStr ''Pen'')
       rename_updater []
     = (Inr (), [OrderBy ''products'' [(''orderBy'', JStr ''name''), (''equalTo'', JStr ''Pen'')],
                 Update ''products/r2'' (JObj [(''name'', JStr ''Pencil'')])]) \<and>
   ''products/r2'' \<noteq> ''products'' @ ''/'' @ ''r1''"
  by (simp add: accessor_defs fixture_defs object_defs)

text \<open>
  Claim C7. For a document the schema accepts, \<open>FirebaseTable.create\<close> hands the parsed
  document to the transport and returns the id it was stored under. On firebase-admin it
  draws a uuid, writes the parsed document at the table path joined with that uuid and,
  when the write returns, returns that uuid. On \<open>FirebaseSDK\<close> it is \<open>push\<close> of the
  parsed document at the table path: with a token obtained and an answer from the store,
  one POST carrying the JSON of the parsed document is sent and the id returned is the
  \<open>name\<close> the store reports for it.
\<close>

theorem create_persists_and_returns_id:
  assumes "schema v = Inr data"
  shows "FirebaseTable_create db schema name v w = db_push db name data w \<and>
         (\<forall>rid w2. uuid w = (rid, w2) \<longrightarrow>
            FirebaseTable_create_admin db uuid schema name v w
              = (case db_set db (name @ ''/'' @ rid) data w2 of
                   (Inl e, w3) \<Rightarrow> (Inl e, w3)
                 | (Inr u, w3) \<Rightarrow> (Inr (JStr rid), w3))) \<and>
         (\<forall>token w1 res s'.
            getAccessToken env ws = (Inr token, w1) \<and>
            store_write env (remote ws)
               \<lparr> req_url = target ws @ ''/'' @ name @ ''.json'', req_method = POST,
                 req_cache = cache_mode ws, req_body = JSON_stringify data,
                 req_headers = [(''Content-Type'', ''application/json; charset=utf-8''),
                                bearer token] \<rparr> = (Inr res, s') \<and>
            res \<noteq> JNull \<and> res \<noteq> JUndefined \<longrightarrow>
            FirebaseTable_create (FirebaseSDK_database env) schema name v ws
              = (Inr (js_member res ''name''),
                 w1\<lparr>sent := sent ws @
                      [\<lparr> req_url = target ws @ ''/'' @ name @ ''.json'', req_method = POST,
                         req_cache = cache_mode ws, req_body = JSON_stringify data,
                         req_headers = [(''Content-Type'', ''application/json; charset=utf-8''),
                                        bearer token] \<rparr>],
                     remote := s'\<rparr>))"
proof -
  have a: "FirebaseTable_create db schema name v w = db_push db name data w"
    using assms by (simp add: FirebaseTable_create_def schema_parse_def andThen_def)
  have b: "FirebaseTable_create_admin db uuid schema name v w
              = (case db_set db (name @ ''/'' @ rid) data w2 of
                   (Inl e, w3) \<Rightarrow> (Inl e, w3)
                 | (Inr u, w3) \<Rightarrow> (Inr (JStr rid), w3))"
    if "uuid w = (rid, w2)" for rid w2
    using assms that by (simp add: FirebaseTable_create_admin_def schema_parse_def andThen_def)
  have c: "FirebaseTable_create (FirebaseSDK_database env) schema name v ws
              = (Inr (js_member res ''name''),
                 w1\<lparr>sent := sent ws @
                      [\<lparr> req_url = target ws @ ''/'' @ name @ ''.json'', req_method = POST,
                         req_cache = cache_mode ws, req_body = JSON_stringify data,
                         req_headers = [(''Content-Type'', ''application/json; charset=utf-8''),
                                        bearer token] \<rparr>],
                     remote := s'\<rparr>)"
    if tok: "getAccessToken env ws = (Inr token, w1)"
      and ans: "store_write env (remote ws)
               \<lparr> req_url = target ws @ ''/'' @ name @ ''.json'', req_method = POST,
                 req_cache = cache_mode ws, req_body = JSON_stringify data,
                 req_headers = [(''Content-Type'', ''application/json; charset=utf-8''),
                                bearer token] \<rparr> = (Inr res, s')"
      and res: "res \<noteq> JNull" "res \<noteq> JUndefined"
    for token w1 res s'
    using assms tok ans res getAccessToken_sent [OF tok]
    by (simp add: FirebaseTable_create_def schema_parse_def andThen_def
          FirebaseSDK_database_def FirebaseSDK_push_def fetch_def)
  from a b c show ?thesis by blast
qed

lemma good_product_accepted: "product_schema good_product = Inr good_product"
  by (simp add: product_schema_def good_product_def js_member_def)

theorem create_persists_and_returns_id_witness:
  "product_schema good_product = Inr good_product \<and>
   FirebaseTable_create (recording JNull) product_schema ''products'' good_product []
     = (Inr (JStr ''r1''), [Push ''products'' good_product]) \<and>
   fixed_uuid [] = (''u7'', []) \<and>
   FirebaseTable_create_admin (recording JNull) fixed_uuid product_schema ''products'' good_product []
     = (Inr (JStr ''u7''), [Set ''products/u7'' good_product]) \<and>
   getAccessToken scenario_env cached_world = (Inr (JStr ''token-0''), stale_world) \<and>
   FirebaseTable_create (FirebaseSDK_database scenario_env) product_schema ''products''
       good_product cached_world
     = (Inr (JStr ''r1''),
        stale_world\<lparr>sent :=
           [\<lparr> req_url = ''https://example.firebaseio.com/products.json'', req_method = POST,
              req_cache = None, req_body = Some ''{\"name\":\"Pen\",\"price\":1}'',
              req_headers = [(''Content-Type'', ''application/json; charset=utf-8''),
                             (''Authorization'', ''Bearer token-0'')] \<rparr>],
           remote := 1\<rparr>)"
proof -
  have u: "fixed_uuid [] = (''u7'', [])" by (simp add: fixed_uuid_def)
  have enc: "JSON_stringify good_product = Some ''{\"name\":\"Pen\",\"price\":1}''"
    by (simp add: good_product_def JSON_stringify_def json_quote_def json_escape_char_def
          show_int_def show_nat_digit digit_char_def)
  have cw: "target cached_world = ''https://example.firebaseio.com'' \<and> cache_mode cached_world = None
      \<and> sent cached_world = [] \<and> remote cached_world = 0"
    by (simp add: world_defs scenario_world_def FirebaseSDK_new_def ends_with_slash_def)
  have ans: "store_write scenario_env (remote cached_world)
               \<lparr> req_url = target cached_world @ ''/'' @ ''products'' @ ''.json'', req_method = POST,
                 req_cache = cache_mode cached_world, req_body = JSON_stringify good_product,
                 req_headers = [(''Content-Type'', ''application/json; charset=utf-8''),
                                bearer (JStr ''token-0'')] \<rparr>
             = (Inr (JObj [(''name'', JStr ''r1'')]), 1)"
    by (simp add: scenario_env_def cw)
  note inst = create_persists_and_returns_id [where schema = product_schema and v = good_product
      and data = good_product and name = "''products''", OF good_product_accepted]
  have a: "FirebaseTable_create (recording JNull) product_schema ''products'' good_product []
     = (Inr (JStr ''r1''), [Push ''products'' good_product])"
    using inst [where db = "recording JNull" and w = "[]", THEN conjunct1]
    by (simp add: recording_def)
  have b: "FirebaseTable_create_admin (recording JNull) fixed_uuid product_schema ''products'' good_product []
     = (Inr (JStr ''u7''), [Set ''products/u7'' good_product])"
    using inst [where db = "recording JNull" and w = "[]" and uuid = fixed_uuid,
                THEN conjunct2, THEN conjunct1, rule_format, OF u]
    by (simp add: recording_def)
  have pre: "getAccessToken scenario_env cached_world = (Inr (JStr ''token-0''), stale_world) \<and>
      store_write scenario_env (remote cached_world)
               \<lparr> req_url = target cached_world @ ''/'' @ ''products'' @ ''.json'', req_method = POST,
                 req_cache = cache_mode cached_world, req_body = JSON_stringify good_product,
                 req_headers = [(''Content-Type'', ''application/json; charset=utf-8''),
                                bearer (JStr ''token-0'')] \<rparr>
             = (Inr (JObj [(''name'', JStr ''r1'')]), 1) \<and>
      JObj [(''name'', JStr ''r1'')] \<noteq> JNull \<and> JObj [(''name'', JStr ''r1'')] \<noteq> JUndefined"
    using scenario_reuse ans by simp
  have c: "FirebaseTable_create (FirebaseSDK_database scenario_env) product_schema ''products''
       good_product cached_world
     = (Inr (JStr ''r1''),
        stale_world\<lparr>sent :=
           [\<lparr> req_url = ''https://example.firebaseio.com/products.json'', req_method = POST,
              req_cache = None, req_body = Some ''{\"name\":\"Pen\",\"price\":1}'',
              req_headers = [(''Content-Type'', ''application/json; charset=utf-8''),
                             (''Authorization'', ''Bearer token-0'')] \<rparr>],
           remote := 1\<rparr>)"
    using inst [where env = scenario_env and ws = cached_world,
                THEN conjunct2, THEN conjunct2, rule_format, OF pre]
    by (simp add: cw enc bearer_def js_member_def)
  from a b c u good_product_accepted scenario_reuse show ?thesis by blast
qed

text \<open>
  When the lookup (\<open>findByChild\<close>, \<open>findById\<close>) yields a falsy value, or the updater
  applied to the row it yields returns a falsy value (\<open>false\<close>, \<open>undefined\<close>, \<open>null\<close>),
  \<open>transitionByChild\<close> and \<open>transitionById\<close> succeed and leave the world as the lookup
  left it: no transport operation runs after the read. On \<open>FirebaseSDK\<close> that read is
  one GET and the store's state after the call is its state before.
\<close>

lemma transition_falsy_no_write:
  assumes "\<not> truthy legacy \<or> (\<exists>u. FunctionUpdate legacy = Inr u \<and> \<not> truthy u)"
  shows "(FirebaseTable_findByChild db name key v w = (Inr legacy, w1) \<longrightarrow>
            FirebaseTable_transitionByChild db name key v FunctionUpdate w = (Inr (), w1)) \<and>
         (FirebaseTable_findById db name rid w = (Inr legacy, w1) \<longrightarrow>
            FirebaseTable_transitionById db name rid FunctionUpdate w = (Inr (), w1)) \<and>
         (FirebaseTable_findByChild_admin db name key v w = (Inr legacy, w1) \<longrightarrow>
            FirebaseTable_transitionByChild_admin db name key v FunctionUpdate w = (Inr (), w1)) \<and>
         (FirebaseTable_findById_admin db name rid w = (Inr legacy, w1) \<longrightarrow>
            FirebaseTable_transitionById_admin db name rid FunctionUpdate w = (Inr (), w1)) \<and>
         (FirebaseTable_findByChild (FirebaseSDK_database env) name key v ws = (Inr legacy, ws1) \<longrightarrow>
            FirebaseTable_transitionByChild (FirebaseSDK_database env) name key v FunctionUpdate ws
              = (Inr (), ws1) \<and>
            remote ws1 = remote ws \<and> (\<exists>r. sent ws1 = sent ws @ [r] \<and> req_method r = GET)) \<and>
         (FirebaseTable_findById (FirebaseSDK_database env) name rid ws = (Inr legacy, ws1) \<longrightarrow>
            FirebaseTable_transitionById (FirebaseSDK_database env) name rid FunctionUpdate ws
              = (Inr (), ws1) \<and>
            remote ws1 = remote ws \<and> (\<exists>r. sent ws1 = sent ws @ [r] \<and> req_method r = GET))"
proof -
  note c = transition_child_declined [where FunctionUpdate = FunctionUpdate and legacy = legacy,
      OF assms]
  note i = transition_id_declined [where FunctionUpdate = FunctionUpdate and legacy = legacy,
      OF assms]
  show ?thesis
    by (auto simp: FirebaseTable_transitionByChild_def FirebaseTable_transitionById_def
          FirebaseTable_transitionByChild_admin_def FirebaseTable_transitionById_admin_def
          andThen_def c i dest: findByChild_reads findById_reads)
qed

lemma keyless_token: "getAccessToken keyless_env w = getAccessToken scenario_env w"
  by (simp add: keyless_env_def getAccessToken_def cong: if_cong)

lemma name_query_string:
  "params_toString (orderBy_params [(''orderBy'', JStr ''name''), (''equalTo'', JStr ''Pen'')])
     = ''orderBy=%22name%22&equalTo=%22Pen%22''"
  by (simp add: orderBy_params_def query_value_def params_toString_def urlencode_def
        urlencode_byte_def upper_digit_char_def)

text \<open>
  Claim C8 fails on the code. \<open>findByChild\<close> on \<open>FirebaseSDK\<close> tests \<open>if ( snapshot )\<close>,
  and an object without keys is truthy. When the store answers the filtered read with
  \<open>{}\<close>, no row matches, yet the lookup returns a row whose \<open>_id\<close> is \<open>undefined\<close>;
  \<open>transitionByChild\<close> runs the updater on it and merges the truthy result at the table
  path joined with \<open>undefined\<close>: on \<open>FirebaseSDK\<close> a PATCH follows the GET and the
  store's state changes. (On firebase-admin the lookup tests \<open>snapshot.exists()\<close>; with
  no snapshot there the same call reads and writes nothing.)
\<close>

theorem transitionByChild_keyless_answer_writes:
  "Object_keys (JObj []) = [] \<and>
   FirebaseTable_findByChild (recording (JObj [])) ''products'' ''name'' (JStr ''Pen'') []
     = (Inr (JObj [(''_id'', JUndefined)]),
        [OrderBy ''products'' [(''orderBy'', JStr ''name''), (''equalTo'', JStr ''Pen'')]]) \<and>
   FirebaseTable_transitionByChild (recording (JObj [])) ''products'' ''name'' (JStr ''Pen'')
       restock_updater []
     = (Inr (), [OrderBy ''products'' [(''orderBy'', JStr ''name''), (''equalTo'', JStr ''Pen'')],
                 Update ''products/undefined'' (JObj [(''price'', JNum 2)])]) \<and>
   map (\<lambda>r. (req_method r, req_url r, req_body r))
     (sent (snd (FirebaseTable_transitionByChild (FirebaseSDK_database keyless_env) ''products''
                   ''name'' (JStr ''Pen'') restock_updater cached_world)))
     = [(GET, ''https://example.firebaseio.com/products.json?orderBy=%22name%22&equalTo=%22Pen%22'',
         None),
        (PATCH, ''https://example.firebaseio.com/products/undefined.json'', Some ''{\"price\":2}'')] \<and>
   remote cached_world = 0 \<and>
   remote (snd (FirebaseTable_transitionByChild (FirebaseSDK_database keyless_env) ''products''
                   ''name'' (JStr ''Pen'') restock_updater cached_world)) = 1 \<and>
   FirebaseTable_transitionByChild_admin (recording JNull) ''products'' ''name'' (JStr ''Pen'')
       restock_updater []
     = (Inr (), [OrderBy ''products'' [(''orderBy'', JStr ''name''), (''equalTo'', JStr ''Pen'')]])"
proof -
  have keys: "Object_keys (JObj []) = []"
    by (simp add: Object_keys_def)
  have rec: "FirebaseTable_findByChild (recording (JObj [])) ''products'' ''name'' (JStr ''Pen'') []
       = (Inr (JObj [(''_id'', JUndefined)]),
          [OrderBy ''products'' [(''orderBy'', JStr ''name''), (''equalTo'', JStr ''Pen'')]]) \<and>
     FirebaseTable_transitionByChild (recording (JObj [])) ''products'' ''name'' (JStr ''Pen'')
         restock_updater []
       = (Inr (), [OrderBy ''products'' [(''orderBy'', JStr ''name''), (''equalTo'', JStr ''Pen'')],
                   Update ''products/undefined'' (JObj [(''price'', JNum 2)])]) \<and>
     FirebaseTable_transitionByChild_admin (recording JNull) ''products'' ''name'' (JStr ''Pen'')
         restock_updater []
       = (Inr (), [OrderBy ''products'' [(''orderBy'', JStr ''name''), (''equalTo'', JStr ''Pen'')]])"
    by (simp add: accessor_defs recording_def restock_updater_def object_defs)
  have enc: "write_body (JObj [(''price'', JNum 2)]) = Some ''{\"price\":2}''"
    by (simp add: write_body_def JSON_stringify_def json_quote_def json_escape_char_def
          show_int_def show_nat_digit digit_char_def)
  have cw: "target stale_world = ''https://example.firebaseio.com'' \<and> cache_mode stale_world = None
      \<and> sent stale_world = [] \<and> remote stale_world = 0
      \<and> target refreshed_world = ''https://example.firebaseio.com''
      \<and> cache_mode refreshed_world = None \<and> remote refreshed_world = 0 \<and> remote cached_world = 0"
    by (simp add: world_defs scenario_world_def FirebaseSDK_new_def ends_with_slash_def)
  have rd: "store_read keyless_env = (\<lambda>s r. Inr (JObj []))"
    by (simp add: keyless_env_def)
  have wr: "\<And>s r. req_method r = PATCH \<Longrightarrow> store_write keyless_env s r = (Inr JNull, Suc s)"
    by (simp add: keyless_env_def scenario_env_def)
  have first: "FirebaseSDK_orderBy keyless_env ''products''
         [(''orderBy'', JStr ''name''), (''equalTo'', JStr ''Pen'')] cached_world
      = (Inr (JObj []),
         stale_world\<lparr>sent :=
           [\<lparr> req_url = ''https://example.firebaseio.com/products.json?orderBy=%22name%22&equalTo=%22Pen%22'',
              req_method = GET, req_cache = None, req_body = None,
              req_headers = [bearer (JStr ''token-0'')] \<rparr>]\<rparr>)"
    by (simp add: FirebaseSDK_orderBy_def andThen_def keyless_token scenario_reuse fetch_def cw rd
          name_query_string)
  have tok2: "getAccessToken keyless_env
         (stale_world\<lparr>sent :=
           [\<lparr> req_url = ''https://example.firebaseio.com/products.json?orderBy=%22name%22&equalTo=%22Pen%22'',
              req_method = GET, req_cache = None, req_body = None,
              req_headers = [bearer (JStr ''token-0'')] \<rparr>]\<rparr>)
      = (Inr (JStr ''token-1''),
         refreshed_world\<lparr>sent :=
           [\<lparr> req_url = ''https://example.firebaseio.com/products.json?orderBy=%22name%22&equalTo=%22Pen%22'',
              req_method = GET, req_cache = None, req_body = None,
              req_headers = [bearer (JStr ''token-0'')] \<rparr>]\<rparr>)"
    by (simp add: keyless_token) (simp add: world_defs scenario_defs)
  have run: "FirebaseTable_transitionByChild (FirebaseSDK_database keyless_env) ''products''
         ''name'' (JStr ''Pen'') restock_updater cached_world
      = (Inr (),
         refreshed_world\<lparr>sent :=
           [\<lparr> req_url = ''https://example.firebaseio.com/products.json?orderBy=%22name%22&equalTo=%22Pen%22'',
              req_method = GET, req_cache = None, req_body = None,
              req_headers = [bearer (JStr ''token-0'')] \<rparr>,
            \<lparr> req_url = ''https://example.firebaseio.com/products/undefined.json'',
              req_method = PATCH, req_cache = None, req_body = Some ''{\"price\":2}'',
              req_headers = [(''Content-Type'', ''application/json; charset=utf8''),
                             bearer (JStr ''token-1'')] \<rparr>],
           remote := 1\<rparr>)"
    using first tok2
    by (simp add: FirebaseTable_transitionByChild_def FirebaseTable_findByChild_def
          transition_child_def FirebaseSDK_database_def andThen_def FirebaseSDK_update_def
          fetch_def restock_updater_def object_defs enc cw wr)
  have sdk: "map (\<lambda>r. (req_method r, req_url r, req_body r))
       (sent (snd (FirebaseTable_transitionByChild (FirebaseSDK_database keyless_env) ''products''
                     ''name'' (JStr ''Pen'') restock_updater cached_world)))
       = [(GET, ''https://example.firebaseio.com/products.json?orderBy=%22name%22&equalTo=%22Pen%22'',
           None),
          (PATCH, ''https://example.firebaseio.com/products/undefined.json'', Some ''{\"price\":2}'')] \<and>
     remote cached_world = 0 \<and>
     remote (snd (FirebaseTable_transitionByChild (FirebaseSDK_database keyless_env) ''products''
                     ''name'' (JStr ''Pen'') restock_updater cached_world)) = 1"
    by (simp add: run cw)
  from keys rec sdk show ?thesis by blast
qed

text \<open>What \<open>set\<close> and \<open>create\<close> hand to the transport is what the schema's \<open>parse\<close> returned.\<close>

lemma set_create_validate:
  "schema v = Inr data \<Longrightarrow>
     FirebaseCollection_set db schema name v w = db_set db name data w \<and>
     FirebaseTable_create db schema name v w = db_push db name data w"
  by (simp add: FirebaseCollection_set_def FirebaseTable_create_def schema_parse_def andThen_def)

lemma stocked_token: "getAccessToken stocked_env w = getAccessToken scenario_env w"
  by (simp add: stocked_env_def getAccessToken_def cong: if_cong)

text \<open>
  Claim C1 fails on the code. \<open>set\<close> and \<open>create\<close> hand the transport what the schema's
  \<open>parse\<close> returned; \<open>update\<close>, \<open>transitionByChild\<close> and \<open>transitionById\<close> hand it what
  the callback returned, unparsed. Here the schema rejects the product priced \<open>-5\<close>, and
  each of the three operations, in both revisions, passes that product to the transport;
  on \<open>FirebaseSDK\<close> it leaves as the body of a PATCH.
\<close>

theorem unvalidated_writes_reach_transport:
  "product_schema bad_product = Inl ''price: Number must be greater than 0'' \<and>
   FirebaseCollection_update (recording good_product) ''product'' reprice_updater []
     = (Inr (), [Get ''product'', Update ''product'' bad_product]) \<and>
   FirebaseCollection_update_admin (recording good_product) ''product'' reprice_updater []
     = (Inr (), [Get ''product'', Update ''product'' bad_product]) \<and>
   FirebaseCollection_update (recording JNull) ''product'' (\<lambda>legacy. Inr bad_product) []
     = (Inr (), [Get ''product'', Set ''product'' bad_product]) \<and>
   FirebaseTable_transitionById (recording good_product) ''products'' ''r1'' reprice_updater []
     = (Inr (), [Get ''products/r1'', Update ''products/r1'' bad_product]) \<and>
   FirebaseTable_transitionById_admin (recording good_product) ''products'' ''r1'' reprice_updater []
     = (Inr (), [Get ''products/r1'', Update ''products/r1'' bad_product]) \<and>
   FirebaseTable_transitionByChild (recording product_rows) ''products'' ''name'' (JStr ''Pen'')
       reprice_updater []
     = (Inr (), [OrderBy ''products'' [(''orderBy'', JStr ''name''), (''equalTo'', JStr ''Pen'')],
                 Update ''products/r1'' bad_product]) \<and>
   FirebaseTable_transitionByChild_admin (recording product_rows) ''products'' ''name'' (JStr ''Pen'')
       reprice_updater []
     = (Inr (), [OrderBy ''products'' [(''orderBy'', JStr ''name''), (''equalTo'', JStr ''Pen'')],
                 Update ''products/r1'' bad_product]) \<and>
   map (\<lambda>r. (req_method r, req_url r, req_body r))
     (sent (snd (FirebaseTable_transitionById (FirebaseSDK_database stocked_env) ''products'' ''r1''
                   reprice_updater cached_world)))
     = [(GET, ''https://example.firebaseio.com/products/r1.json'', None),
        (PATCH, ''https://example.firebaseio.com/products/r1.json'',
         Some ''{\"name\":\"Pen\",\"price\":-5}'')]"
proof -
  have rec: "FirebaseCollection_update (recording good_product) ''product'' reprice_updater []
       = (Inr (), [Get ''product'', Update ''product'' bad_product]) \<and>
     FirebaseCollection_update_admin (recording good_product) ''product'' reprice_updater []
       = (Inr (), [Get ''product'', Update ''product'' bad_product]) \<and>
     FirebaseCollection_update (recording JNull) ''product'' (\<lambda>legacy. Inr bad_product) []
       = (Inr (), [Get ''product'', Set ''product'' bad_product]) \<and>
     FirebaseTable_transitionById (recording good_product) ''products'' ''r1'' reprice_updater []
       = (Inr (), [Get ''products/r1'', Update ''products/r1'' bad_product]) \<and>
     FirebaseTable_transitionById_admin (recording good_product) ''products'' ''r1'' reprice_updater []
       = (Inr (), [Get ''products/r1'', Update ''products/r1'' bad_product]) \<and>
     FirebaseTable_transitionByChild (recording product_rows) ''products'' ''name'' (JStr ''Pen'')
         reprice_updater []
       = (Inr (), [OrderBy ''products'' [(''orderBy'', JStr ''name''), (''equalTo'', JStr ''Pen'')],
                   Update ''products/r1'' bad_product]) \<and>
     FirebaseTable_transitionByChild_admin (recording product_rows) ''products'' ''name'' (JStr ''Pen'')
         reprice_updater []
       = (Inr (), [OrderBy ''products'' [(''orderBy'', JStr ''name''), (''equalTo'', JStr ''Pen'')],
                   Update ''products/r1'' bad_product])"
    by (simp add: accessor_defs fixture_defs object_defs)
  have enc: "write_body (JObj [(''name'', JStr ''Pen''), (''price'', JNum (- 5))])
      = Some ''{\"name\":\"Pen\",\"price\":-5}''"
    by (simp add: write_body_def JSON_stringify_def json_quote_def json_escape_char_def
          show_int_def show_nat_digit digit_char_def)
  have cw: "target stale_world = ''https://example.firebaseio.com'' \<and> cache_mode stale_world = None
      \<and> sent stale_world = [] \<and> target refreshed_world = ''https://example.firebaseio.com''
      \<and> cache_mode refreshed_world = None \<and> sent refreshed_world = []"
    by (simp add: world_defs scenario_world_def FirebaseSDK_new_def ends_with_slash_def)
  have rd: "store_read stocked_env = (\<lambda>s r. Inr good_product)"
    by (simp add: stocked_env_def)
  have wr: "\<And>s r. req_method r = PATCH \<Longrightarrow> store_write stocked_env s r = (Inr JNull, Suc s)"
    by (simp add: stocked_env_def scenario_env_def)
  have first: "FirebaseSDK_get stocked_env ''products/r1'' cached_world
      = (Inr good_product,
         stale_world\<lparr>sent :=
           [\<lparr> req_url = ''https://example.firebaseio.com/products/r1.json'', req_method = GET,
              req_cache = None, req_body = None,
              req_headers = [bearer (JStr ''token-0'')] \<rparr>]\<rparr>)"
    by (simp add: FirebaseSDK_get_def andThen_def stocked_token scenario_reuse fetch_def cw rd)
  have tok2: "getAccessToken stocked_env
         (stale_world\<lparr>sent :=
           [\<lparr> req_url = ''https://example.firebaseio.com/products/r1.json'', req_method = GET,
              req_cache = None, req_body = None,
              req_headers = [bearer (JStr ''token-0'')] \<rparr>]\<rparr>)
      = (Inr (JStr ''token-1''),
         refreshed_world\<lparr>sent :=
           [\<lparr> req_url = ''https://example.firebaseio.com/products/r1.json'', req_method = GET,
              req_cache = None, req_body = None,
              req_headers = [bearer (JStr ''token-0'')] \<rparr>]\<rparr>)"
    by (simp add: stocked_token) (simp add: world_defs scenario_defs)
  have sdk: "map (\<lambda>r. (req_method r, req_url r, req_body r))
     (sent (snd (FirebaseTable_transitionById (FirebaseSDK_database stocked_env) ''products'' ''r1''
                   reprice_updater cached_world)))
     = [(GET, ''https://example.firebaseio.com/products/r1.json'', None),
        (PATCH, ''https://example.firebaseio.com/products/r1.json'',
         Some ''{\"name\":\"Pen\",\"price\":-5}'')]"
    using first tok2
    by (simp add: FirebaseTable_transitionById_def FirebaseTable_findById_def transition_id_def
          FirebaseSDK_database_def andThen_def FirebaseSDK_update_def fetch_def
          good_product_def reprice_updater_def enc cw wr)
  from bad_product_rejected rec sdk show ?thesis by blast
qed

end
